theory Spec2Isabelle
  imports Main "HOL-Library.Sublist"
begin

section \<open>The safe-local-exec provisioner: data model\<close>

text \<open>
  The development follows \<open>applyFn\<close> and \<open>copyOutput\<close> of package \<open>exec\<close>.
  Go strings are byte sequences, so they are \<^typ>\<open>string\<close> here. A value of Go's
  \<open>interface{}\<close> is a value tagged with its dynamic type; a type assertion looks at
  the tag.
\<close>

datatype gvalue = GString string | GInt int | GBool bool | GNil

text \<open>
  The fields of \<open>schema.ResourceData\<close> that \<open>applyFn\<close> reads, as \<open>data.Get\<close> returns
  them. The environment is a Go map; the list gives its entries in the order in which
  \<open>range\<close> visits them. For the schema of lines 47 to 50 (a map without element type)
  \<open>data.Get\<close> returns string values only, so the values are strings here and the type
  assertion of line 75 always succeeds. The elements of the interpreter list keep their
  dynamic type. \<open>timeout\<close> is \<open>None\<close> when the configuration does not set it.
\<close>

record resource_data =
  command :: string
  environment :: "(string \<times> string) list"
  interpreter :: "gvalue list"
  working_dir :: string
  timeout :: "int option"

datatype num_err = ErrSyntax | ErrRange

text \<open>
  Go errors: \<open>fmt.Errorf\<close> gives an error that carries its message;
  \<open>strconv.NumError\<close> carries the function name, the rejected text and the reason.
\<close>

datatype go_error = Errorf string | NumError string string num_err

datatype panic = NilDereference

datatype outcome = Success | Failure go_error | Panic panic

datatype select_case = CopyDone | CallerDone | TimeoutDone

text \<open>
  What the call does to the operating system, in order. \<open>StartProcess\<close> records the
  argument vector, the working directory, the environment, \<open>Setpgid\<close> and what the
  operating system answered (an error text or the new process id).
\<close>

datatype effect =
    LogMaxTimeout int
  | OsPipe
  | StartProcess "string list" string "string list" bool "string + nat"
  | WaitProcess nat
  | ClosePipeWriter
  | Getpgid nat
  | Kill int int

datatype ui_msg = Executing "string list" | Line string

text \<open>
  Everything outside the program that one call of \<open>applyFn\<close> depends on:
  \<^item> \<open>goos\<close> is \<open>runtime.GOOS\<close>; \<open>max_timeout_env\<close> is the variable \<open>MAX_TIMEOUT\<close>
    (\<open>None\<close> when it is not set); \<open>os_environ\<close> is \<open>os.Environ()\<close>;
  \<^item> \<open>pipe_result\<close> is the error of \<open>os.Pipe()\<close>, if any;
  \<^item> \<open>look_path_result\<close> is the error that \<open>exec.CommandContext\<close> records when it
    cannot find the program, if any; \<open>cmd.Start\<close> returns it before anything else;
  \<^item> \<open>start_result\<close> is what starting the process gives when it is attempted;
  \<^item> \<open>natural_exit\<close>: the process ends on its own that many nanoseconds after the
    command context was created, and \<open>Wait\<close> then returns that error (\<open>None\<close> for exit
    status 0); \<open>None\<close> is a process that never ends on its own;
  \<^item> \<open>proc_output\<close>: the bytes that arrive at the read end of the pipe, one element per
    \<open>Read\<close>; \<open>drained\<close>: how many of these reads the copying goroutine has made when
    the \<open>select\<close> leaves through another case than \<open>copyDoneCh\<close>;
  \<^item> \<open>selected\<close>: the case through which the \<open>select\<close> leaves;
  \<^item> \<open>getpgid_result\<close>: what \<open>syscall.Getpgid\<close> answers when it is called.
\<close>

record world =
  goos :: string
  max_timeout_env :: "string option"
  os_environ :: "string list"
  pipe_result :: "string option"
  look_path_result :: "string option"
  start_result :: "string + nat"
  natural_exit :: "(nat \<times> string option) option"
  proc_output :: "string list"
  drained :: nat
  selected :: select_case
  getpgid_result :: "string + int"

record result =
  outcome :: outcome
  effects :: "effect list"
  transcript :: "ui_msg list"


section \<open>Runtime functions used by \<open>applyFn\<close>\<close>

subsection \<open>\<open>strconv.Atoi\<close>\<close>

text \<open>
  Base 10, an optional sign, at least one digit, nothing else; a value outside the
  range of \<open>int\<close> (64 bits) is a range error. The digits are read from the left into an
  unsigned 64-bit number, and the first character that is not a digit, or the first
  digit that overflows, ends the reading with its error.
\<close>

definition digit_of :: "char \<Rightarrow> nat option" where
  "digit_of c = (let n = (of_char c :: nat) in if 48 \<le> n \<and> n \<le> 57 then Some (n - 48) else None)"

fun parse_uint :: "nat \<Rightarrow> string \<Rightarrow> num_err + nat" where
  "parse_uint n [] = Inr n"
| "parse_uint n (c # cs) =
     (case digit_of c of
        None \<Rightarrow> Inl ErrSyntax
      | Some v \<Rightarrow>
          if n \<ge> 1844674407370955162 then Inl ErrRange
          else if n * 10 + v > 18446744073709551615 then Inl ErrRange
          else parse_uint (n * 10 + v) cs)"

definition Atoi :: "string \<Rightarrow> go_error + int" where
  "Atoi s =
     (let neg = (case s of c # _ \<Rightarrow> c = CHR ''-'' | [] \<Rightarrow> False);
          ds = (case s of c # cs \<Rightarrow> if c = CHR ''-'' \<or> c = CHR ''+'' then cs else s | [] \<Rightarrow> [])
      in if ds = [] then Inl (NumError ''Atoi'' s ErrSyntax)
         else case parse_uint 0 ds of
                Inl k \<Rightarrow> Inl (NumError ''Atoi'' s k)
              | Inr n \<Rightarrow>
                  if neg then (if n \<le> 9223372036854775808 then Inr (- int n) else Inl (NumError ''Atoi'' s ErrRange))
                  else (if n < 9223372036854775808 then Inr (int n) else Inl (NumError ''Atoi'' s ErrRange)))"

subsection \<open>\<open>os.Getenv\<close> and \<open>ResourceData.GetOk\<close>\<close>

definition os_getenv :: "string option \<Rightarrow> string" where
  "os_getenv v = (case v of None \<Rightarrow> [] | Some s \<Rightarrow> s)"

text \<open>\<open>GetOk\<close> answers \<open>ok\<close> only for a value that is set and is not the zero value.\<close>

definition get_timeout :: "resource_data \<Rightarrow> int" where
  "get_timeout d = (case timeout d of None \<Rightarrow> 0 | Some t \<Rightarrow> if t \<noteq> 0 then t else 0)"

subsection \<open>\<open>time.Duration(timeout) * time.Second\<close> and \<open>context.WithTimeout\<close>\<close>

text \<open>
  A duration is a signed 64-bit count of nanoseconds, and the product wraps around.
  A context made by \<open>context.WithTimeout\<close> with a duration that is not positive is
  expired when it is returned.
\<close>

definition wrap64 :: "int \<Rightarrow> int" where
  "wrap64 x = (x + 9223372036854775808) mod 18446744073709551616 - 9223372036854775808"

definition duration_ns :: "int \<Rightarrow> int" where
  "duration_ns t = wrap64 (t * 1000000000)"

definition expired_on_creation :: "int \<Rightarrow> bool" where
  "expired_on_creation dur = (dur \<le> 0)"


section \<open>The output path\<close>

definition maxBufSize :: nat where
  "maxBufSize = 8 * 1024"

text \<open>
  Modelled from the spec: the bounded output buffer (\<open>circbuf.Buffer\<close>; the package is
  not among the source files). It is a fixed capacity and the bytes it retains.
\<close>

record buffer =
  capacity :: nat
  retained :: string

text \<open>
  Modelled from the spec: \<open>circbuf.NewBuffer\<close>, the empty buffer of the given capacity.
\<close>

definition NewBuffer :: "nat \<Rightarrow> buffer" where
  "NewBuffer n = \<lparr>capacity = n, retained = []\<rparr>"

text \<open>
  Modelled from the spec: \<open>Buffer.Write\<close>. The buffer accepts successive byte writes,
  retains at most its capacity of the most recently written bytes and discards the
  oldest bytes first when the capacity is exceeded; a write never fails. The result is
  the buffer, the number of bytes accepted and the error.
\<close>

definition buffer_write :: "buffer \<Rightarrow> string \<Rightarrow> buffer \<times> nat \<times> go_error option" where
  "buffer_write b bs =
     (let all = retained b @ bs
      in (b\<lparr>retained := drop (length all - capacity b) all\<rparr>, length bs, None))"

text \<open>
  Modelled from the spec: \<open>Buffer.Bytes\<close>, the bytes retained at the time of the call.
\<close>

definition Bytes :: "buffer \<Rightarrow> string" where
  "Bytes b = retained b"

text \<open>
  Modelled from the spec: the line splitter (\<open>linereader.Reader\<close>; the package is not
  among the source files). It produces the content up to but excluding each line
  terminator. \<open>feed\<close> consumes one read: it takes the pending partial line and
  returns the lines completed and the new partial line.
\<close>

fun feed :: "string \<Rightarrow> string \<Rightarrow> string list \<times> string" where
  "feed pending [] = ([], pending)"
| "feed pending (c # cs) =
     (if c = CHR 0x0A then (let (ls, p) = feed [] cs in (pending # ls, p))
      else feed (pending @ [c]) cs)"

text \<open>
  Modelled from the spec: at the end of the stream the line splitter flushes trailing
  data that has no terminator as a final line.
\<close>

definition flush :: "string \<Rightarrow> string list" where
  "flush pending = (if pending = [] then [] else [pending])"

text \<open>
  Modelled from the spec: the line splitter applied to a whole byte string at once.
\<close>

definition split_lines :: "string \<Rightarrow> string list" where
  "split_lines bs = (let (ls, p) = feed [] bs in ls @ flush p)"

text \<open>
  The copying goroutine: \<open>copyOutput\<close> over \<open>io.TeeReader(pr, output)\<close>. Every read
  is first written to the buffer, then handed to the line reader, and every line that
  the line reader produces is passed to \<open>o.Output\<close>. The state is the buffer, the
  pending partial line and the lines given to the sink so far.
\<close>

record drain =
  buf :: buffer
  pending :: string
  sink :: "string list"

definition drain_init :: drain where
  "drain_init = \<lparr>buf = NewBuffer maxBufSize, pending = [], sink = []\<rparr>"

definition tee_read :: "drain \<Rightarrow> string \<Rightarrow> drain" where
  "tee_read st chunk =
     (let (b, _, _) = buffer_write (buf st) chunk;
          (ls, p) = feed (pending st) chunk
      in \<lparr>buf = b, pending = p, sink = foldl (\<lambda>out l. out @ [l]) (sink st) ls\<rparr>)"

definition at_eof :: "drain \<Rightarrow> drain" where
  "at_eof st = st\<lparr>pending := [], sink := foldl (\<lambda>out l. out @ [l]) (sink st) (flush (pending st))\<rparr>"

definition copyOutput :: "string list \<Rightarrow> drain" where
  "copyOutput chunks = at_eof (foldl tee_read drain_init chunks)"


section \<open>\<open>applyFn\<close>\<close>

text \<open>Lines 71 to 77: the environment entries, one \<open>NAME=value\<close> for each entry of the map.\<close>

fun build_env :: "(string \<times> string) list \<Rightarrow> string list" where
  "build_env [] = []"
| "build_env ((k, v) # rest) = (k @ ''='' @ v) # build_env rest"

text \<open>Lines 80 to 96: the argument vector; an interpreter element that is not a string is skipped.\<close>

fun interpreter_args :: "gvalue list \<Rightarrow> string list" where
  "interpreter_args [] = []"
| "interpreter_args (GString s # rest) = s # interpreter_args rest"
| "interpreter_args (_ # rest) = interpreter_args rest"

definition build_cmdargs :: "gvalue list \<Rightarrow> string \<Rightarrow> string \<Rightarrow> string list" where
  "build_cmdargs interp os cmd =
     (if length interp > 0 then interpreter_args interp
      else if os = ''windows'' then [''cmd'', ''/C''] else [''/bin/sh'', ''-c'']) @ [cmd]"

text \<open>
  Lines 105 to 121: the requested timeout and the text of \<open>MAX_TIMEOUT\<close> give the
  timeout that is used, and the log line when the variable is not empty.
\<close>

definition resolve_timeout :: "int \<Rightarrow> string \<Rightarrow> go_error + (int \<times> effect list)" where
  "resolve_timeout requested t =
     (if length t \<noteq> 0 then
        (case Atoi t of
           Inl e \<Rightarrow> Inl e
         | Inr mTimeout \<Rightarrow>
             (let timeout1 = (if requested > mTimeout \<and> mTimeout \<noteq> 0 then mTimeout else requested);
                  timeout2 = (if timeout1 = 0 then mTimeout else timeout1)
              in Inr (timeout2, [LogMaxTimeout timeout2])))
      else Inr (requested, []))"

text \<open>
  Lines 169 to 172: \<open>cmd.Start\<close> and \<open>cmd.Wait\<close> under the command context with the
  given duration. \<open>Start\<close> returns the recorded lookup error when there is one, and the
  context's error, without starting anything, when the context is already done. A started process that does not end before the
  deadline is killed by the context, and \<open>Wait\<close> reports the signal. The result is the
  error, \<open>cmd.Process\<close> and the effects.
\<close>

definition deadline_exceeded :: string where
  "deadline_exceeded = ''context deadline exceeded''"

definition signal_killed :: string where
  "signal_killed = ''signal: killed''"

definition wait_error :: "world \<Rightarrow> int \<Rightarrow> string option" where
  "wait_error w dur =
     (case natural_exit w of
        None \<Rightarrow> Some signal_killed
      | Some (t, e) \<Rightarrow> if int t < dur then e else Some signal_killed)"

definition start_and_wait ::
  "world \<Rightarrow> int \<Rightarrow> string list \<Rightarrow> string \<Rightarrow> string list \<Rightarrow> string option \<times> nat option \<times> effect list" where
  "start_and_wait w dur cmdargs dir cmdEnv =
     (case look_path_result w of
        Some e \<Rightarrow> (Some e, None, [])
      | None \<Rightarrow>
          if expired_on_creation dur then (Some deadline_exceeded, None, [])
          else
            (case start_result w of
               Inl e \<Rightarrow>
                 (Some e, None, [StartProcess cmdargs dir cmdEnv (goos w \<noteq> ''windows'') (Inl e)])
             | Inr pid \<Rightarrow>
                 (wait_error w dur, Some pid,
                  [StartProcess cmdargs dir cmdEnv (goos w \<noteq> ''windows'') (Inr pid),
                   WaitProcess pid])))"

text \<open>
  Lines 182 to 192: the \<open>select\<close>. Only the case of the command context does anything:
  it reads \<open>cmd.Process.Pid\<close>, which is a nil dereference when nothing was started,
  asks the operating system for the process group of that pid, and signals the group
  when the lookup succeeds.
\<close>

definition select_phase :: "world \<Rightarrow> nat option \<Rightarrow> panic option \<times> effect list" where
  "select_phase w process =
     (case selected w of
        CopyDone \<Rightarrow> (None, [])
      | CallerDone \<Rightarrow> (None, [])
      | TimeoutDone \<Rightarrow>
          (if goos w \<noteq> ''windows'' then
             (case process of
                None \<Rightarrow> (Some NilDereference, [])
              | Some pid \<Rightarrow>
                  (case getpgid_result w of
                     Inr pgid \<Rightarrow> (None, [Getpgid pid, Kill (- pgid) 15])
                   | Inl _ \<Rightarrow> (None, [Getpgid pid])))
           else (None, [])))"

text \<open>
  What the copying goroutine has done when the \<open>select\<close> is left: everything up to the
  end of the stream when \<open>copyDoneCh\<close> was closed, the first \<open>drained\<close> reads otherwise.
  A process that was not started writes nothing.
\<close>

definition drain_at_select :: "world \<Rightarrow> nat option \<Rightarrow> drain" where
  "drain_at_select w process =
     (let chunks = (case process of None \<Rightarrow> [] | Some _ \<Rightarrow> proc_output w)
      in if selected w = CopyDone then copyOutput chunks
         else foldl tee_read drain_init (take (drained w) chunks))"

definition run_error_message :: "string \<Rightarrow> string \<Rightarrow> string \<Rightarrow> string" where
  "run_error_message cmd reason out =
     ''Error running command '' @ [CHR 0x27] @ cmd @ [CHR 0x27] @ '': '' @ reason @ ''. Output: '' @ out"

definition empty_command_error :: go_error where
  "empty_command_error = Errorf ''local-exec provisioner command must be a non-empty string''"

definition pipe_error :: "string \<Rightarrow> go_error" where
  "pipe_error e = Errorf (''failed to initialize pipe for output: '' @ e)"

text \<open>Lines 126 to 199, once the configuration has been read.\<close>

definition run_command ::
  "resource_data \<Rightarrow> world \<Rightarrow> string list \<Rightarrow> string list \<Rightarrow> int \<Rightarrow> effect list \<Rightarrow> result" where
  "run_command d w cmdargs env tmo logs =
     (case pipe_result w of
        Some e \<Rightarrow> \<lparr>outcome = Failure (pipe_error e), effects = logs @ [OsPipe], transcript = []\<rparr>
      | None \<Rightarrow>
          (let cmdEnv = os_environ w @ env;
               (err, process, run_effects) =
                  start_and_wait w (duration_ns tmo) cmdargs (working_dir d) cmdEnv;
               (pnc, select_effects) = select_phase w process;
               dr = drain_at_select w process;
               effs = logs @ [OsPipe] @ run_effects @ [ClosePipeWriter] @ select_effects;
               ui = Executing cmdargs # map Line (sink dr)
           in case pnc of
                Some p \<Rightarrow> \<lparr>outcome = Panic p, effects = effs, transcript = ui\<rparr>
              | None \<Rightarrow>
                  (case err of
                     Some reason \<Rightarrow>
                       \<lparr>outcome = Failure (Errorf (run_error_message (command d) reason (Bytes (buf dr)))),
                        effects = effs, transcript = ui\<rparr>
                   | None \<Rightarrow> \<lparr>outcome = Success, effects = effs, transcript = ui\<rparr>)))"

definition applyFn :: "resource_data \<Rightarrow> world \<Rightarrow> result" where
  "applyFn d w =
     (if command d = [] then \<lparr>outcome = Failure empty_command_error, effects = [], transcript = []\<rparr>
      else
        (let env = build_env (environment d);
             cmdargs = build_cmdargs (interpreter d) (goos w) (command d)
         in case resolve_timeout (get_timeout d) (os_getenv (max_timeout_env w)) of
              Inl e \<Rightarrow> \<lparr>outcome = Failure e, effects = [], transcript = []\<rparr>
            | Inr (tmo, logs) \<Rightarrow> run_command d w cmdargs env tmo logs))"


section \<open>Predicates and inputs used in the statements\<close>









text \<open>A process was started: the trace has a \<open>StartProcess\<close> that the system answered with a pid.\<close>

primrec is_spawn :: "effect \<Rightarrow> bool" where
  "is_spawn (LogMaxTimeout _) = False"
| "is_spawn OsPipe = False"
| "is_spawn (StartProcess _ _ _ _ r) = (case r of Inl _ \<Rightarrow> False | Inr _ \<Rightarrow> True)"
| "is_spawn (WaitProcess _) = False"
| "is_spawn ClosePipeWriter = False"
| "is_spawn (Getpgid _) = False"
| "is_spawn (Kill _ _) = False"

definition spawned :: "effect list \<Rightarrow> bool" where
  "spawned tr = list_ex is_spawn tr"

text \<open>A signal was sent.\<close>

primrec is_signal :: "effect \<Rightarrow> bool" where
  "is_signal (LogMaxTimeout _) = False"
| "is_signal OsPipe = False"
| "is_signal (StartProcess _ _ _ _ _) = False"
| "is_signal (WaitProcess _) = False"
| "is_signal ClosePipeWriter = False"
| "is_signal (Getpgid _) = False"
| "is_signal (Kill _ _) = True"

definition signalled :: "effect list \<Rightarrow> bool" where
  "signalled tr = list_ex is_signal tr"

text \<open>A lookup of a process group.\<close>

primrec is_lookup :: "effect \<Rightarrow> bool" where
  "is_lookup (LogMaxTimeout _) = False"
| "is_lookup OsPipe = False"
| "is_lookup (StartProcess _ _ _ _ _) = False"
| "is_lookup (WaitProcess _) = False"
| "is_lookup ClosePipeWriter = False"
| "is_lookup (Getpgid _) = True"
| "is_lookup (Kill _ _) = False"

text \<open>The last \<open>n\<close> bytes of a byte string (all of it when it is shorter).\<close>

definition last_bytes :: "nat \<Rightarrow> string \<Rightarrow> string" where
  "last_bytes n bs = drop (length bs - n) bs"

text \<open>
  Modelled from the spec: the line-split of a byte string, written without the
  splitter's state: each line is the content up to but excluding the next line
  terminator, and data after the last terminator is a line of its own.
\<close>

function text_lines :: "string \<Rightarrow> string list" where
  "text_lines bs =
     (if bs = [] then []
      else takeWhile (\<lambda>c. c \<noteq> CHR 0x0A) bs
             # (case dropWhile (\<lambda>c. c \<noteq> CHR 0x0A) bs of
                  [] \<Rightarrow> []
                | _ # rest \<Rightarrow> text_lines rest))"
  by pat_completeness auto
termination
proof (relation "measure length")
  show "wf (measure length)" by simp
next
  fix bs :: string and x rest
  assume "bs \<noteq> []" and d: "dropWhile (\<lambda>c. c \<noteq> CHR 0x0A) bs = x # rest"
  have "length (dropWhile (\<lambda>c. c \<noteq> CHR 0x0A) bs) \<le> length bs"
    by (rule length_dropWhile_le)
  then show "(rest, bs) \<in> measure length" using d by simp
qed

declare text_lines.simps [simp del]

text \<open>
  A configuration like the one of the README (\<open>timeout = 10\<close>) and a world in which
  \<open>/bin/sh -c "echo hi"\<close> gets pid 42, prints \<open>hi\<close> and exits with status 0 after 5 ns;
  a lookup of the group of pid 42 after \<open>Wait\<close> finds no such process.
\<close>

definition example_data :: resource_data where
  "example_data = \<lparr>command = ''echo hi'', environment = [(''K'', ''v'')], interpreter = [],
     working_dir = [], timeout = Some 10\<rparr>"

definition example_world :: world where
  "example_world = \<lparr>goos = ''linux'', max_timeout_env = None, os_environ = [''PATH=/bin''],
     pipe_result = None, look_path_result = None, start_result = Inr 42,
     natural_exit = Some (5, None), proc_output = [''hi'', [CHR 0x0A]], drained = 0,
     selected = CopyDone, getpgid_result = Inl ''no such process''\<rparr>"


section \<open>Basic facts\<close>

lemmas model_defs =
  applyFn_def run_command_def start_and_wait_def select_phase_def drain_at_select_def
  resolve_timeout_def get_timeout_def os_getenv_def build_cmdargs_def wait_error_def
  duration_ns_def wrap64_def expired_on_creation_def copyOutput_def drain_init_def
  tee_read_def at_eof_def buffer_write_def NewBuffer_def maxBufSize_def flush_def Bytes_def
  Atoi_def digit_of_def deadline_exceeded_def signal_killed_def Let_def

lemmas example_defs = example_data_def example_world_def

lemma Atoi_Nil: "Atoi [] = Inl (NumError ''Atoi'' [] ErrSyntax)"
  by (simp add: Atoi_def)

lemma Atoi_ok_nonempty: "Atoi t = Inr c \<Longrightarrow> t \<noteq> []"
  by (auto simp: Atoi_Nil)

lemma spawned_simps [simp]:
  "spawned [] = False"
  "spawned (x # xs) = (is_spawn x \<or> spawned xs)"
  "spawned (xs @ ys) = (spawned xs \<or> spawned ys)"
  by (auto simp: spawned_def)

lemma signalled_simps [simp]:
  "signalled [] = False"
  "signalled (x # xs) = (is_signal x \<or> signalled xs)"
  "signalled (xs @ ys) = (signalled xs \<or> signalled ys)"
  by (auto simp: signalled_def)

lemma logs_quiet:
  assumes "resolve_timeout r t = Inr (tmo, logs)"
  shows "\<not> spawned logs" and "\<not> signalled logs" and "Kill p s \<notin> set logs"
    and "filter is_lookup logs = []"
  using assms by (auto simp: resolve_timeout_def Let_def split: if_splits sum.splits)

lemma select_not_spawn: "\<not> spawned (snd (select_phase w p))"
  by (simp add: select_phase_def split: select_case.splits option.splits sum.splits)

lemma select_phase_quiet:
  "selected w \<noteq> TimeoutDone \<Longrightarrow> select_phase w p = (None, [])"
  by (cases "selected w") (simp_all add: select_phase_def)

lemma start_and_wait_not_signal: "\<not> signalled (snd (snd (start_and_wait w dur a b c)))"
  by (simp add: start_and_wait_def split: sum.splits option.splits)

lemma start_and_wait_selected [simp]:
  "start_and_wait (w\<lparr>selected := s\<rparr>) dur a b c = start_and_wait w dur a b c"
  by (simp add: start_and_wait_def wait_error_def split: sum.splits option.splits)

text \<open>Once the configuration has been read without error, the call is \<open>run_command\<close>.\<close>

lemma applyFn_run:
  assumes "command d \<noteq> []"
    and "resolve_timeout (get_timeout d) (os_getenv (max_timeout_env w)) = Inr (tmo, logs)"
  shows "applyFn d w = run_command d w (build_cmdargs (interpreter d) (goos w) (command d))
           (build_env (environment d)) tmo logs"
  using assms by (simp add: applyFn_def Let_def)

lemma spawned_run_command:
  assumes "spawned (effects (run_command d w args env tmo logs))" and "\<not> spawned logs"
  shows "pipe_result w = None \<and> look_path_result w = None
       \<and> \<not> expired_on_creation (duration_ns tmo) \<and> (\<exists>pid. start_result w = Inr pid)"
  using assms select_not_spawn [of w None]
  by (cases "pipe_result w"; cases "look_path_result w"; cases "start_result w";
      cases "expired_on_creation (duration_ns tmo)")
    (auto simp: run_command_def start_and_wait_def Let_def split: prod.splits option.splits)

text \<open>A process was started only if every step before \<open>cmd.Start\<close> went through.\<close>

lemma spawned_applyFn:
  assumes "spawned (effects (applyFn d w))"
  shows "\<exists>tmo logs pid. command d \<noteq> []
     \<and> resolve_timeout (get_timeout d) (os_getenv (max_timeout_env w)) = Inr (tmo, logs)
     \<and> pipe_result w = None \<and> look_path_result w = None
     \<and> \<not> expired_on_creation (duration_ns tmo) \<and> start_result w = Inr pid"
proof -
  have c: "command d \<noteq> []" using assms by (auto simp: applyFn_def)
  obtain tmo logs
    where r: "resolve_timeout (get_timeout d) (os_getenv (max_timeout_env w)) = Inr (tmo, logs)"
    using assms c
    by (cases "resolve_timeout (get_timeout d) (os_getenv (max_timeout_env w))")
      (auto simp: applyFn_def Let_def)
  have "spawned (effects (run_command d w (build_cmdargs (interpreter d) (goos w) (command d))
      (build_env (environment d)) tmo logs))"
    using assms applyFn_run [OF c r] by simp
  then show ?thesis using spawned_run_command logs_quiet(1) [OF r] c r by blast
qed

lemma run_command_started:
  assumes "pipe_result w = None" and "look_path_result w = None"
    and "\<not> expired_on_creation (duration_ns tmo)" and "start_result w = Inr pid"
  shows "outcome (run_command d w args env tmo logs) =
           (case wait_error w (duration_ns tmo) of
              None \<Rightarrow> Success
            | Some reason \<Rightarrow>
                Failure (Errorf (run_error_message (command d) reason
                  (Bytes (buf (drain_at_select w (Some pid)))))))"
  using assms
  by (simp add: run_command_def start_and_wait_def select_phase_def Let_def
      split: select_case.splits sum.splits option.splits)

lemma run_command_quiet:
  assumes "selected w \<noteq> TimeoutDone"
  shows "effects (run_command d w args env tmo logs) =
           (case pipe_result w of
              Some e \<Rightarrow> logs @ [OsPipe]
            | None \<Rightarrow> logs @ [OsPipe]
                @ snd (snd (start_and_wait w (duration_ns tmo) args (working_dir d) (os_environ w @ env)))
                @ [ClosePipeWriter])"
    and "(outcome (run_command d w args env tmo logs) = Success) =
           (pipe_result w = None
            \<and> fst (start_and_wait w (duration_ns tmo) args (working_dir d) (os_environ w @ env)) = None)"
  using select_phase_quiet [OF assms]
  by (auto simp: run_command_def Let_def split: option.splits prod.splits)

lemma sublist_run_error_message:
  "sublist cmd (run_error_message cmd reason out)"
  "sublist reason (run_error_message cmd reason out)"
  "sublist out (run_error_message cmd reason out)"
proof -
  show "sublist cmd (run_error_message cmd reason out)"
    unfolding run_error_message_def sublist_def by (metis append.assoc)
  show "sublist reason (run_error_message cmd reason out)"
    unfolding run_error_message_def sublist_def by (metis append.assoc)
  show "sublist out (run_error_message cmd reason out)"
    unfolding run_error_message_def sublist_def by (metis append.assoc append_Nil2)
qed


section \<open>The effective timeout\<close>

text \<open>
  C2. With requested timeout \<open>r\<close> and a ceiling \<open>c\<close> that \<open>strconv.Atoi\<close> reads from the
  text of \<open>MAX_TIMEOUT\<close>, the timeout that lines 105 to 121 compute is \<open>min r c\<close> when
  \<open>c > 0\<close> and a timeout was requested, \<open>c\<close> when \<open>r = 0\<close> and \<open>c > 0\<close>, and \<open>r\<close> when
  \<open>c = 0\<close>; requested 10 with ceiling 5 gives 5, requested 0 with ceiling 5 gives 5,
  requested 10 with ceiling 0 gives 10. (The clause for \<open>r = 0\<close> takes precedence over
  the minimum, as the example with requested 0 shows.)
\<close>

theorem effective_timeout:
  assumes "Atoi t = Inr c"
  shows "(0 < c \<and> r \<noteq> 0 \<longrightarrow>
            resolve_timeout r (os_getenv (Some t)) = Inr (min r c, [LogMaxTimeout (min r c)]))
       \<and> (0 < c \<and> r = 0 \<longrightarrow>
            resolve_timeout r (os_getenv (Some t)) = Inr (c, [LogMaxTimeout c]))
       \<and> (c = 0 \<longrightarrow>
            resolve_timeout r (os_getenv (Some t)) = Inr (r, [LogMaxTimeout r]))
       \<and> resolve_timeout 10 (os_getenv (Some ''5'')) = Inr (5, [LogMaxTimeout 5])
       \<and> resolve_timeout 0 (os_getenv (Some ''5'')) = Inr (5, [LogMaxTimeout 5])
       \<and> resolve_timeout 10 (os_getenv (Some ''0'')) = Inr (10, [LogMaxTimeout 10])"
proof -
  have ne: "t \<noteq> []" using assms by (rule Atoi_ok_nonempty)
  let ?x = "if r > c \<and> c \<noteq> 0 then c else if r = 0 then c else r"
  have gen: "resolve_timeout r (os_getenv (Some t)) = Inr (?x, [LogMaxTimeout ?x])"
    using ne assms by (simp add: resolve_timeout_def os_getenv_def Let_def)
  have e1: "resolve_timeout 10 (os_getenv (Some ''5'')) = Inr (5, [LogMaxTimeout 5])"
    by (simp add: resolve_timeout_def os_getenv_def Atoi_def digit_of_def)
  have e2: "resolve_timeout 0 (os_getenv (Some ''5'')) = Inr (5, [LogMaxTimeout 5])"
    by (simp add: resolve_timeout_def os_getenv_def Atoi_def digit_of_def)
  have e3: "resolve_timeout 10 (os_getenv (Some ''0'')) = Inr (10, [LogMaxTimeout 10])"
    by (simp add: resolve_timeout_def os_getenv_def Atoi_def digit_of_def)
  show ?thesis using gen e1 e2 e3 by (auto simp: min_def)
qed

theorem effective_timeout_witness:
  "Atoi ''7'' = Inr 7 \<and> Atoi ''0'' = Inr 0
   \<and> resolve_timeout 3 (os_getenv (Some ''7'')) = Inr (3, [LogMaxTimeout 3])
   \<and> resolve_timeout 9 (os_getenv (Some ''7'')) = Inr (7, [LogMaxTimeout 7])
   \<and> resolve_timeout 0 (os_getenv (Some ''7'')) = Inr (7, [LogMaxTimeout 7])
   \<and> resolve_timeout 3 (os_getenv (Some ''0'')) = Inr (3, [LogMaxTimeout 3])"
proof -
  have a: "Atoi ''7'' = Inr 7" by (simp add: Atoi_def digit_of_def)
  have b: "Atoi ''0'' = Inr 0" by (simp add: Atoi_def digit_of_def)
  show ?thesis
    using a b effective_timeout [OF a, of 3] effective_timeout [OF a, of 9]
      effective_timeout [OF a, of 0] effective_timeout [OF b, of 3]
    by simp
qed

text \<open>
  When nothing is requested and there is no ceiling (the variable is absent, empty or
  zero), the duration handed to \<open>context.WithTimeout\<close> is zero: the context is expired
  when it is made, so no process is ever started and the call cannot succeed.
\<close>

lemma zero_timeout_never_runs:
  assumes "get_timeout d = 0"
    and "max_timeout_env w = None \<or> max_timeout_env w = Some []
         \<or> (\<exists>t. max_timeout_env w = Some t \<and> Atoi t = Inr 0)"
  shows "\<not> spawned (effects (applyFn d w)) \<and> outcome (applyFn d w) \<noteq> Success"
proof -
  have r: "\<exists>logs. resolve_timeout (get_timeout d) (os_getenv (max_timeout_env w)) = Inr (0, logs)"
    using assms by (auto simp: resolve_timeout_def os_getenv_def Let_def)
  have x: "expired_on_creation (duration_ns 0)"
    by (simp add: expired_on_creation_def duration_ns_def wrap64_def)
  have 1: "\<not> spawned (effects (applyFn d w))"
    using spawned_applyFn [of d w] r x by auto
  have 2: "outcome (applyFn d w) \<noteq> Success"
    using r x
    by (auto simp: applyFn_def run_command_def start_and_wait_def select_phase_def Let_def
        split: option.splits sum.splits select_case.splits prod.splits)
  show ?thesis using 1 2 by simp
qed

text \<open>
  C1. With no timeout requested and \<open>MAX_TIMEOUT\<close> absent, the command of the example is
  not run to completion: \<open>cmd.Start\<close> returns the error of the expired context, nothing is
  started, and the call fails; when the \<open>select\<close> leaves through the case of the command
  context, the call panics on \<open>cmd.Process.Pid\<close>.
\<close>

theorem zero_timeout_expired:
  "get_timeout (example_data\<lparr>timeout := None\<rparr>) = 0 \<and> max_timeout_env example_world = None
   \<and> applyFn (example_data\<lparr>timeout := None\<rparr>) example_world
      = \<lparr>outcome = Failure (Errorf (run_error_message ''echo hi'' ''context deadline exceeded'' [])),
         effects = [OsPipe, ClosePipeWriter],
         transcript = [Executing [''/bin/sh'', ''-c'', ''echo hi'']]\<rparr>
   \<and> applyFn (example_data\<lparr>timeout := None\<rparr>) (example_world\<lparr>selected := TimeoutDone\<rparr>)
      = \<lparr>outcome = Panic NilDereference,
         effects = [OsPipe, ClosePipeWriter],
         transcript = [Executing [''/bin/sh'', ''-c'', ''echo hi'']]\<rparr>"
  by (simp add: model_defs example_defs)


section \<open>Errors of the configuration\<close>

text \<open>
  C5, as amended. An empty command returns the error of line 67 with no effect at all.
  With a command that is not empty, a text of \<open>MAX_TIMEOUT\<close> that is not empty and that
  \<open>strconv.Atoi\<close> rejects makes the call return that error before \<open>os.Pipe\<close> is called
  and before anything is started: no effect, nothing given to the sink.
\<close>

theorem config_errors:
  "(command d = [] \<longrightarrow>
      applyFn d w = \<lparr>outcome = Failure empty_command_error, effects = [], transcript = []\<rparr>)
   \<and> (command d \<noteq> [] \<and> max_timeout_env w = Some t \<and> t \<noteq> [] \<and> Atoi t = Inl e \<longrightarrow>
      applyFn d w = \<lparr>outcome = Failure e, effects = [], transcript = []\<rparr>)"
  by (simp add: applyFn_def resolve_timeout_def os_getenv_def Let_def)

theorem config_errors_witness:
  "applyFn (example_data\<lparr>command := []\<rparr>) example_world
      = \<lparr>outcome = Failure empty_command_error, effects = [], transcript = []\<rparr>
   \<and> Atoi ''5s'' = Inl (NumError ''Atoi'' ''5s'' ErrSyntax)
   \<and> applyFn example_data (example_world\<lparr>max_timeout_env := Some ''5s''\<rparr>)
      = \<lparr>outcome = Failure (NumError ''Atoi'' ''5s'' ErrSyntax), effects = [], transcript = []\<rparr>"
proof -
  have a: "Atoi ''5s'' = Inl (NumError ''Atoi'' ''5s'' ErrSyntax)"
    by (simp add: Atoi_def digit_of_def)
  have b: "command example_data \<noteq> []"
    by (simp add: example_data_def)
  show ?thesis
    using a b
      config_errors [of "example_data\<lparr>command := []\<rparr>" example_world "''5s''"
        "NumError ''Atoi'' ''5s'' ErrSyntax"]
      config_errors [of example_data "example_world\<lparr>max_timeout_env := Some ''5s''\<rparr>" "''5s''"
        "NumError ''Atoi'' ''5s'' ErrSyntax"]
    by simp
qed

text \<open>
  Without the condition on the text the statement fails: \<open>MAX_TIMEOUT\<close> set to the
  empty text is not an integer, yet line 108 treats it as absent and the command is run.
\<close>

theorem config_errors_counterexample:
  "Atoi [] = Inl (NumError ''Atoi'' [] ErrSyntax)
   \<and> applyFn example_data (example_world\<lparr>max_timeout_env := Some []\<rparr>)
      = \<lparr>outcome = Success,
         effects = [OsPipe,
                    StartProcess [''/bin/sh'', ''-c'', ''echo hi''] [] [''PATH=/bin'', ''K=v''] True (Inr 42),
                    WaitProcess 42, ClosePipeWriter],
         transcript = [Executing [''/bin/sh'', ''-c'', ''echo hi''], Line ''hi'']\<rparr>"
  by (simp add: model_defs example_defs)


section \<open>The type assertion on the environment\<close>





section \<open>Success and failure of the command\<close>

text \<open>
  C6. When the process is started and ends on its own with exit status 0 before the
  deadline of the command context, the call returns no error: the outcome is Success
  whatever the process writes, however far the copying has got, and through whichever
  case the \<open>select\<close> leaves.
\<close>

theorem exit_zero_success:
  assumes "spawned (effects (applyFn d w))"
    and "resolve_timeout (get_timeout d) (os_getenv (max_timeout_env w)) = Inr (tmo, logs)"
    and "natural_exit w = Some (t, None)" and "int t < duration_ns tmo"
  shows "outcome (applyFn d (w\<lparr>proc_output := out, drained := n, selected := s\<rparr>)) = Success"
proof -
  let ?w = "w\<lparr>proc_output := out, drained := n, selected := s\<rparr>"
  obtain tmo' logs' pid where c: "command d \<noteq> []"
    and r: "resolve_timeout (get_timeout d) (os_getenv (max_timeout_env w)) = Inr (tmo', logs')"
    and p: "pipe_result w = None" and lp: "look_path_result w = None"
    and x: "\<not> expired_on_creation (duration_ns tmo')"
    and st: "start_result w = Inr pid"
    using spawned_applyFn [OF assms(1)] by blast
  have eq: "tmo' = tmo" using r assms(2) by simp
  have r': "resolve_timeout (get_timeout d) (os_getenv (max_timeout_env ?w)) = Inr (tmo, logs)"
    using assms(2) by simp
  have w0: "wait_error ?w (duration_ns tmo) = None"
    using assms(3,4) by (simp add: wait_error_def)
  have "outcome (run_command d ?w args env tmo logs) = Success" for args env
    using run_command_started [of ?w tmo pid d args env logs] p lp x st eq w0 by simp
  then show ?thesis using applyFn_run [OF c r'] by simp
qed

theorem exit_zero_success_witness:
  "spawned (effects (applyFn example_data example_world))
   \<and> resolve_timeout (get_timeout example_data) (os_getenv (max_timeout_env example_world)) = Inr (10, [])
   \<and> natural_exit example_world = Some (5, None) \<and> int 5 < duration_ns 10
   \<and> outcome (applyFn example_data
        (example_world\<lparr>proc_output := replicate 100000 ''x'', drained := 7, selected := TimeoutDone\<rparr>))
       = Success"
proof -
  have a: "spawned (effects (applyFn example_data example_world))"
    by (simp add: model_defs example_defs)
  have b: "resolve_timeout (get_timeout example_data) (os_getenv (max_timeout_env example_world))
             = Inr (10, [])"
    by (simp add: model_defs example_defs)
  have c: "natural_exit example_world = Some (5, None)" by (simp add: example_defs)
  have d: "int 5 < duration_ns 10" by (simp add: model_defs)
  show ?thesis using a b c d exit_zero_success [OF a b c d] by simp
qed

text \<open>
  C8. When the call has got as far as \<open>cmd.Start\<close>, \<open>Start\<close> or \<open>Wait\<close> returned an
  error and the call returns (it does not stop in the nil dereference of the
  \<open>select\<close>), the error that the call returns has the message of lines 195 and 196: it
  contains the command text, the reason given by \<open>Start\<close> or \<open>Wait\<close>, and the bytes that
  the output buffer holds at that moment.
\<close>

theorem failure_message:
  assumes "command d \<noteq> []"
    and "resolve_timeout (get_timeout d) (os_getenv (max_timeout_env w)) = Inr (tmo, logs)"
    and "pipe_result w = None"
    and "start_and_wait w (duration_ns tmo) (build_cmdargs (interpreter d) (goos w) (command d))
           (working_dir d) (os_environ w @ build_env (environment d)) = (Some reason, process, effs)"
    and "outcome (applyFn d w) \<noteq> Panic NilDereference"
  shows "outcome (applyFn d w)
           = Failure (Errorf (run_error_message (command d) reason (Bytes (buf (drain_at_select w process)))))
       \<and> sublist (command d) (run_error_message (command d) reason (Bytes (buf (drain_at_select w process))))
       \<and> sublist reason (run_error_message (command d) reason (Bytes (buf (drain_at_select w process))))
       \<and> sublist (Bytes (buf (drain_at_select w process)))
            (run_error_message (command d) reason (Bytes (buf (drain_at_select w process))))"
proof -
  have a: "applyFn d w = run_command d w (build_cmdargs (interpreter d) (goos w) (command d))
      (build_env (environment d)) tmo logs"
    using applyFn_run [OF assms(1,2)] .
  have "outcome (applyFn d w)
           = Failure (Errorf (run_error_message (command d) reason (Bytes (buf (drain_at_select w process)))))"
    using assms(3,4,5) unfolding a
    by (cases "select_phase w process") (auto simp: run_command_def Let_def select_phase_def
        split: option.splits select_case.splits if_splits sum.splits)
  then show ?thesis using sublist_run_error_message by simp
qed

theorem failure_message_witness:
  "command example_data \<noteq> [] \<and> build_env (environment example_data) = [''K=v'']
   \<and> resolve_timeout (get_timeout example_data) (os_getenv (max_timeout_env example_world)) = Inr (10, [])
   \<and> pipe_result (example_world\<lparr>natural_exit := Some (5, Some ''exit status 1'')\<rparr>) = None
   \<and> start_and_wait (example_world\<lparr>natural_exit := Some (5, Some ''exit status 1'')\<rparr>) (duration_ns 10)
        [''/bin/sh'', ''-c'', ''echo hi''] [] [''PATH=/bin'', ''K=v'']
       = (Some ''exit status 1'', Some 42,
          [StartProcess [''/bin/sh'', ''-c'', ''echo hi''] [] [''PATH=/bin'', ''K=v''] True (Inr 42),
           WaitProcess 42])
   \<and> outcome (applyFn example_data (example_world\<lparr>natural_exit := Some (5, Some ''exit status 1'')\<rparr>))
       = Failure (Errorf (''Error running command '' @ [CHR 0x27] @ ''echo hi'' @ [CHR 0x27]
           @ '': exit status 1. Output: hi'' @ [CHR 0x0A]))"
proof -
  let ?w = "example_world\<lparr>natural_exit := Some (5, Some ''exit status 1'')\<rparr>"
  have a: "command example_data \<noteq> []" by (simp add: example_defs)
  have b: "build_env (environment example_data) = [''K=v'']" by (simp add: example_defs)
  have c: "resolve_timeout (get_timeout example_data) (os_getenv (max_timeout_env ?w)) = Inr (10, [])"
    by (simp add: model_defs example_defs)
  have p: "pipe_result ?w = None" by (simp add: example_defs)
  have s: "start_and_wait ?w (duration_ns 10)
        (build_cmdargs (interpreter example_data) (goos ?w) (command example_data))
        (working_dir example_data) (os_environ ?w @ build_env (environment example_data))
       = (Some ''exit status 1'', Some 42,
          [StartProcess [''/bin/sh'', ''-c'', ''echo hi''] [] [''PATH=/bin'', ''K=v''] True (Inr 42),
           WaitProcess 42])"
    by (simp add: model_defs example_defs)
  have n: "outcome (applyFn example_data ?w) \<noteq> Panic NilDereference"
    by (simp add: model_defs example_defs)
  have t: "Bytes (buf (drain_at_select ?w (Some 42))) = ''hi'' @ [CHR 0x0A]"
    by (simp add: model_defs example_defs)
  have s': "start_and_wait ?w (duration_ns 10) [''/bin/sh'', ''-c'', ''echo hi''] [] [''PATH=/bin'', ''K=v'']
       = (Some ''exit status 1'', Some 42,
          [StartProcess [''/bin/sh'', ''-c'', ''echo hi''] [] [''PATH=/bin'', ''K=v''] True (Inr 42),
           WaitProcess 42])"
    by (simp add: model_defs example_defs)
  have c': "resolve_timeout (get_timeout example_data) (os_getenv (max_timeout_env example_world))
      = Inr (10, [])"
    by (simp add: model_defs example_defs)
  have "outcome (applyFn example_data ?w)
       = Failure (Errorf (run_error_message (command example_data) ''exit status 1''
           (Bytes (buf (drain_at_select ?w (Some 42))))))"
    using failure_message [OF a c p s n] by blast
  then have "outcome (applyFn example_data ?w)
       = Failure (Errorf (''Error running command '' @ [CHR 0x27] @ ''echo hi'' @ [CHR 0x27]
           @ '': exit status 1. Output: hi'' @ [CHR 0x0A]))"
    unfolding t by (simp add: run_error_message_def example_defs)
  then show ?thesis using a b c' p s' by simp
qed


section \<open>Cancellation and the process group\<close>

lemma start_and_wait_output [simp]:
  "start_and_wait (w\<lparr>proc_output := out\<rparr>) dur a b c = start_and_wait w dur a b c"
  by (simp add: start_and_wait_def wait_error_def split: sum.splits option.splits)

text \<open>
  When the \<open>select\<close> leaves before the copying has finished, the buffer holds what a
  finished copy of the reads made so far would have left in it.
\<close>

lemma drain_buf_unfinished:
  assumes "selected w \<noteq> CopyDone"
  shows "buf (drain_at_select w p)
           = buf (drain_at_select (w\<lparr>selected := CopyDone, proc_output := take (drained w) (proc_output w)\<rparr>) p)"
  using assms by (cases p) (simp_all add: drain_at_select_def copyOutput_def at_eof_def Let_def)

text \<open>
  C3, as amended. When the \<open>select\<close> leaves through the Done channel of the caller's
  context, the call does what it does when the copying has finished: the same system
  calls, among them no signal, Success in exactly the same cases, and the very outcome
  of a call whose copying finished after the reads made so far.
\<close>

theorem caller_cancellation:
  assumes "selected w = CallerDone"
  shows "effects (applyFn d w) = effects (applyFn d (w\<lparr>selected := CopyDone\<rparr>))
       \<and> \<not> signalled (effects (applyFn d w))
       \<and> (outcome (applyFn d w) = Success
            \<longleftrightarrow> outcome (applyFn d (w\<lparr>selected := CopyDone\<rparr>)) = Success)
       \<and> outcome (applyFn d w)
           = outcome (applyFn d (w\<lparr>selected := CopyDone,
                                   proc_output := take (drained w) (proc_output w)\<rparr>))"
proof (cases "command d = []
    \<or> (\<exists>e. resolve_timeout (get_timeout d) (os_getenv (max_timeout_env w)) = Inl e)")
  case True
  then show ?thesis by (auto simp: applyFn_def Let_def split: option.splits sum.splits)
next
  case False
  then obtain tmo logs where c: "command d \<noteq> []"
    and r: "resolve_timeout (get_timeout d) (os_getenv (max_timeout_env w)) = Inr (tmo, logs)"
    by (cases "resolve_timeout (get_timeout d) (os_getenv (max_timeout_env w))") auto
  let ?w = "w\<lparr>selected := CopyDone\<rparr>"
  let ?v = "w\<lparr>selected := CopyDone, proc_output := take (drained w) (proc_output w)\<rparr>"
  let ?args = "build_cmdargs (interpreter d) (goos w) (command d)"
  let ?env = "build_env (environment d)"
  have r': "resolve_timeout (get_timeout d) (os_getenv (max_timeout_env ?w)) = Inr (tmo, logs)"
    and r'': "resolve_timeout (get_timeout d) (os_getenv (max_timeout_env ?v)) = Inr (tmo, logs)"
    using r by simp_all
  have a: "applyFn d w = run_command d w ?args ?env tmo logs"
    using applyFn_run [OF c r] .
  have b: "applyFn d ?w = run_command d ?w ?args ?env tmo logs"
    using applyFn_run [OF c r'] by simp
  have v: "applyFn d ?v = run_command d ?v ?args ?env tmo logs"
    using applyFn_run [OF c r''] by simp
  have q: "selected w \<noteq> TimeoutDone" "selected ?w \<noteq> TimeoutDone" using assms by simp_all
  have 1: "effects (applyFn d w) = effects (applyFn d ?w)"
    using a b run_command_quiet(1) [OF q(1)] run_command_quiet(1) [OF q(2)]
    by (simp split: option.splits)
  have 2: "(outcome (applyFn d w) = Success) = (outcome (applyFn d ?w) = Success)"
    using a b run_command_quiet(2) [OF q(1)] run_command_quiet(2) [OF q(2)]
    by (simp split: option.splits)
  have 3: "\<not> signalled (effects (applyFn d w))"
    using a run_command_quiet(1) [OF q(1), of d args env tmo logs for args env] logs_quiet(2) [OF r]
      start_and_wait_not_signal [of w]
    by (auto split: option.splits)
  have n: "selected w \<noteq> CopyDone" using assms by simp
  have 4: "outcome (run_command d w ?args ?env tmo logs) = outcome (run_command d ?v ?args ?env tmo logs)"
    using assms drain_buf_unfinished [OF n]
    by (cases "start_and_wait w (duration_ns tmo) ?args (working_dir d) (os_environ w @ ?env)")
      (simp add: run_command_def select_phase_def Let_def split: option.splits)
  show ?thesis using 1 2 3 4 a v by simp
qed

theorem caller_cancellation_witness:
  "selected (example_world\<lparr>selected := CallerDone\<rparr>) = CallerDone
   \<and> effects (applyFn example_data (example_world\<lparr>selected := CallerDone\<rparr>))
       = effects (applyFn example_data (example_world\<lparr>selected := CopyDone\<rparr>))
   \<and> \<not> signalled (effects (applyFn example_data (example_world\<lparr>selected := CallerDone\<rparr>)))
   \<and> (outcome (applyFn example_data (example_world\<lparr>selected := CallerDone\<rparr>)) = Success
        \<longleftrightarrow> outcome (applyFn example_data (example_world\<lparr>selected := CopyDone\<rparr>)) = Success)"
proof -
  have a: "selected (example_world\<lparr>selected := CallerDone\<rparr>) = CallerDone" by simp
  have b: "example_world\<lparr>selected := CallerDone, selected := CopyDone\<rparr>
      = example_world\<lparr>selected := CopyDone\<rparr>"
    by simp
  show ?thesis using a caller_cancellation [OF a, of example_data] unfolding b by blast
qed

text \<open>
  On Linux, with the caller's context cancelled while \<open>echo hi\<close> runs, the process
  ends on its own, no signal is sent and the call returns Success.
\<close>

theorem caller_cancellation_counterexample:
  "goos (example_world\<lparr>selected := CallerDone\<rparr>) \<noteq> ''windows''
   \<and> selected (example_world\<lparr>selected := CallerDone\<rparr>) = CallerDone
   \<and> applyFn example_data (example_world\<lparr>selected := CallerDone\<rparr>)
      = \<lparr>outcome = Success,
         effects = [OsPipe,
                    StartProcess [''/bin/sh'', ''-c'', ''echo hi''] [] [''PATH=/bin'', ''K=v''] True (Inr 42),
                    WaitProcess 42, ClosePipeWriter],
         transcript = [Executing [''/bin/sh'', ''-c'', ''echo hi'']]\<rparr>"
  by (simp add: model_defs example_defs)

text \<open>
  The only lookup of a process group that the call makes comes after \<open>Wait\<close> has
  returned and the write end is closed; a signal, if any, follows it directly and goes
  to the group that the lookup reported; when the lookup fails there is no signal.
\<close>

lemma run_command_lookup:
  assumes "pipe_result w = None" and "look_path_result w = None"
    and "\<not> expired_on_creation (duration_ns tmo)" and "start_result w = Inr pid"
    and "selected w = TimeoutDone" and "goos w \<noteq> ''windows''"
  shows "effects (run_command d w args env tmo logs)
           = (logs @ [OsPipe, StartProcess args (working_dir d) (os_environ w @ env) True (Inr pid)])
               @ [WaitProcess pid, ClosePipeWriter, Getpgid pid]
               @ (case getpgid_result w of Inl _ \<Rightarrow> [] | Inr g \<Rightarrow> [Kill (- g) 15])"
  using assms
  by (simp add: run_command_def start_and_wait_def select_phase_def Let_def
      split: sum.splits option.splits)

lemma run_command_no_lookup:
  assumes "filter is_lookup logs = []"
    and "pipe_result w \<noteq> None \<or> look_path_result w \<noteq> None \<or> expired_on_creation (duration_ns tmo)
         \<or> (\<exists>e. start_result w = Inl e) \<or> selected w \<noteq> TimeoutDone \<or> goos w = ''windows''"
  shows "filter is_lookup (effects (run_command d w args env tmo logs)) = []"
proof (cases "pipe_result w")
  case (Some e)
  then show ?thesis using assms(1) by (simp add: run_command_def)
next
  case None
  obtain err process effs
    where s: "start_and_wait w (duration_ns tmo) args (working_dir d) (os_environ w @ env)
                = (err, process, effs)"
    by (cases "start_and_wait w (duration_ns tmo) args (working_dir d) (os_environ w @ env)")
  have e: "filter is_lookup effs = []"
    using s by (auto simp: start_and_wait_def split: option.splits sum.splits if_splits)
  have p: "process = None \<or> selected w \<noteq> TimeoutDone \<or> goos w = ''windows''"
    using s assms(2) None by (auto simp: start_and_wait_def split: option.splits sum.splits if_splits)
  have q: "filter is_lookup (snd (select_phase w process)) = []"
    using p by (auto simp: select_phase_def split: select_case.splits option.splits sum.splits)
  obtain pnc sel where sp: "select_phase w process = (pnc, sel)"
    by (cases "select_phase w process")
  show ?thesis
    using None s sp e q assms(1)
    by (simp add: run_command_def Let_def split: option.splits)
qed

lemma lookup_after_wait:
  "filter is_lookup (effects (applyFn d w)) = []
   \<or> (\<exists>pre pid post. effects (applyFn d w) = pre @ [WaitProcess pid, ClosePipeWriter, Getpgid pid] @ post
        \<and> filter is_lookup pre = []
        \<and> (post = [] \<or> (\<exists>g. post = [Kill (- g) 15] \<and> getpgid_result w = Inr g)))"
proof (cases "command d = []
    \<or> (\<exists>e. resolve_timeout (get_timeout d) (os_getenv (max_timeout_env w)) = Inl e)")
  case True
  then show ?thesis by (auto simp: applyFn_def Let_def split: option.splits sum.splits)
next
  case False
  then obtain tmo logs where c: "command d \<noteq> []"
    and r: "resolve_timeout (get_timeout d) (os_getenv (max_timeout_env w)) = Inr (tmo, logs)"
    by (cases "resolve_timeout (get_timeout d) (os_getenv (max_timeout_env w))") auto
  have l: "filter is_lookup logs = []" using logs_quiet(4) [OF r] .
  let ?args = "build_cmdargs (interpreter d) (goos w) (command d)"
  let ?env = "build_env (environment d)"
  have a: "applyFn d w = run_command d w ?args ?env tmo logs"
    using applyFn_run [OF c r] .
  show ?thesis
  proof (cases "pipe_result w = None \<and> look_path_result w = None
      \<and> \<not> expired_on_creation (duration_ns tmo) \<and> (\<exists>pid. start_result w = Inr pid)
      \<and> selected w = TimeoutDone \<and> goos w \<noteq> ''windows''")
    case True
    then obtain pid where st: "start_result w = Inr pid" by blast
    let ?pre = "logs @ [OsPipe, StartProcess ?args (working_dir d) (os_environ w @ ?env) True (Inr pid)]"
    let ?post = "case getpgid_result w of Inl _ \<Rightarrow> [] | Inr g \<Rightarrow> [Kill (- g) 15]"
    have e: "effects (applyFn d w) = ?pre @ [WaitProcess pid, ClosePipeWriter, Getpgid pid] @ ?post"
      unfolding a using run_command_lookup [of w tmo pid d ?args ?env logs] True st by simp
    have f: "filter is_lookup ?pre = []" using l by simp
    have g: "?post = [] \<or> (\<exists>g. ?post = [Kill (- g) 15] \<and> getpgid_result w = Inr g)"
      by (cases "getpgid_result w") simp_all
    show ?thesis using e f g by blast
  next
    case False
    then have "filter is_lookup (effects (applyFn d w)) = []"
      unfolding a using run_command_no_lookup [OF l, of w tmo d ?args ?env]
      by (cases "start_result w") auto
    then show ?thesis by simp
  qed
qed

lemma failed_lookup_no_signal:
  assumes "getpgid_result w = Inl e"
  shows "\<not> signalled (effects (applyFn d w))"
proof (cases "command d = []
    \<or> (\<exists>e. resolve_timeout (get_timeout d) (os_getenv (max_timeout_env w)) = Inl e)")
  case True
  then show ?thesis by (auto simp: applyFn_def Let_def split: option.splits sum.splits)
next
  case False
  then obtain tmo logs where c: "command d \<noteq> []"
    and r: "resolve_timeout (get_timeout d) (os_getenv (max_timeout_env w)) = Inr (tmo, logs)"
    by (cases "resolve_timeout (get_timeout d) (os_getenv (max_timeout_env w))") auto
  show ?thesis
    unfolding applyFn_run [OF c r] using assms logs_quiet(2) [OF r]
    by (auto simp: run_command_def start_and_wait_def select_phase_def Let_def
        split: option.splits sum.splits select_case.splits prod.splits if_splits)
qed

text \<open>
  C4. A shell that leaves a child behind (\<open>sleep 60 & sleep 60\<close>, timeout 1) is killed by
  the command context after one second; the child keeps the pipe open, so the \<open>select\<close>
  leaves through the case of the command context. The process group was not recorded
  when the shell was started: it is looked up from the pid only now, after \<open>Wait\<close> has
  reaped the shell, the lookup finds no such process, and no signal is sent to the
  group.
\<close>

theorem late_group_lookup:
  "applyFn (example_data\<lparr>command := ''sleep 60 & sleep 60'', timeout := Some 1\<rparr>)
        (example_world\<lparr>natural_exit := None, proc_output := [], selected := TimeoutDone\<rparr>)
      = \<lparr>outcome = Failure (Errorf (run_error_message ''sleep 60 & sleep 60'' ''signal: killed'' [])),
         effects = [OsPipe,
                    StartProcess [''/bin/sh'', ''-c'', ''sleep 60 & sleep 60''] []
                      [''PATH=/bin'', ''K=v''] True (Inr 42),
                    WaitProcess 42, ClosePipeWriter, Getpgid 42],
         transcript = [Executing [''/bin/sh'', ''-c'', ''sleep 60 & sleep 60'']]\<rparr>
   \<and> \<not> signalled (effects (applyFn (example_data\<lparr>command := ''sleep 60 & sleep 60'', timeout := Some 1\<rparr>)
        (example_world\<lparr>natural_exit := None, proc_output := [], selected := TimeoutDone\<rparr>)))"
  by (simp add: model_defs example_defs)


section \<open>The output buffer and the lines given to the sink\<close>

lemma foldl_snoc: "foldl (\<lambda>out l. out @ [l]) s ls = s @ ls"
  by (induction ls arbitrary: s) simp_all

lemma feed_append:
  "feed p (a @ b) = (let (l1, p1) = feed p a; (l2, p2) = feed p1 b in (l1 @ l2, p2))"
  by (induction a arbitrary: p) (simp_all add: Let_def split: prod.splits)

lemma last_bytes_append:
  "last_bytes n (last_bytes n a @ b) = last_bytes n (a @ b)"
  by (cases "length a \<le> n") (simp_all add: last_bytes_def add.commute)

lemma length_last_bytes: "length (last_bytes n bs) \<le> n"
  by (simp add: last_bytes_def)

lemma last_bytes_id: "length bs \<le> n \<Longrightarrow> last_bytes n bs = bs"
  by (simp add: last_bytes_def)

lemma buffer_write_retained:
  "retained (fst (buffer_write b bs)) = last_bytes (capacity b) (retained b @ bs)"
  "capacity (fst (buffer_write b bs)) = capacity b"
  by (simp_all add: buffer_write_def last_bytes_def Let_def)

lemma tee_read_fields:
  "buf (tee_read st c) = fst (buffer_write (buf st) c)"
  "pending (tee_read st c) = snd (feed (pending st) c)"
  "sink (tee_read st c) = sink st @ fst (feed (pending st) c)"
  by (simp_all add: tee_read_def foldl_snoc split: prod.splits)

text \<open>The buffer of the copying goroutine sees the reads as successive writes.\<close>

lemma drain_writes:
  "buf (foldl tee_read st chunks) = foldl (\<lambda>b c. fst (buffer_write b c)) (buf st) chunks"
  by (induction chunks arbitrary: st) (simp_all add: tee_read_fields)

lemma writes_retained:
  "capacity (foldl (\<lambda>b c. fst (buffer_write b c)) b0 ws) = capacity b0
   \<and> last_bytes (capacity b0) (retained (foldl (\<lambda>b c. fst (buffer_write b c)) b0 ws))
       = last_bytes (capacity b0) (retained b0 @ concat ws)
   \<and> (ws \<noteq> [] \<longrightarrow> length (retained (foldl (\<lambda>b c. fst (buffer_write b c)) b0 ws)) \<le> capacity b0)"
proof (induction ws arbitrary: b0)
  case Nil
  show ?case by simp
next
  case (Cons c cs)
  let ?b = "fst (buffer_write b0 c)"
  let ?f = "\<lambda>b c. fst (buffer_write b c)"
  have cap: "capacity ?b = capacity b0"
    by (simp add: buffer_write_retained)
  have ret: "retained ?b = last_bytes (capacity b0) (retained b0 @ c)"
    by (simp add: buffer_write_retained)
  have 1: "capacity (foldl ?f ?b cs) = capacity b0"
    using Cons [of ?b] cap by simp
  have "last_bytes (capacity b0) (retained (foldl ?f ?b cs))
      = last_bytes (capacity b0) (last_bytes (capacity b0) (retained b0 @ c) @ concat cs)"
    using Cons [of ?b] cap ret by simp
  also have "\<dots> = last_bytes (capacity b0) ((retained b0 @ c) @ concat cs)"
    by (rule last_bytes_append)
  finally have 2: "last_bytes (capacity b0) (retained (foldl ?f ?b cs))
      = last_bytes (capacity b0) (retained b0 @ concat (c # cs))"
    by simp
  have 3: "length (retained (foldl ?f ?b cs)) \<le> capacity b0"
  proof (cases "cs = []")
    case True
    then show ?thesis using ret by (simp add: length_last_bytes)
  next
    case False
    then show ?thesis using Cons [of ?b] cap by simp
  qed
  show ?case using 1 2 3 by simp
qed

lemma new_buffer_bytes:
  "Bytes (foldl (\<lambda>b c. fst (buffer_write b c)) (NewBuffer n) ws) = last_bytes n (concat ws)"
proof (cases "ws = []")
  case True
  then show ?thesis by (simp add: Bytes_def NewBuffer_def last_bytes_def)
next
  case False
  let ?b = "foldl (\<lambda>b c. fst (buffer_write b c)) (NewBuffer n) ws"
  have c: "capacity (NewBuffer n) = n" "retained (NewBuffer n) = []"
    by (simp_all add: NewBuffer_def)
  have "length (retained ?b) \<le> n"
    using writes_retained [of "NewBuffer n" ws] False c by simp
  then have "retained ?b = last_bytes n (retained ?b)"
    by (simp add: last_bytes_id)
  also have "\<dots> = last_bytes n (concat ws)"
    using writes_retained [of "NewBuffer n" ws] c by simp
  finally show ?thesis by (simp add: Bytes_def)
qed

lemma drain_lines:
  "pending (foldl tee_read st chunks) = snd (feed (pending st) (concat chunks))
   \<and> sink (foldl tee_read st chunks) = sink st @ fst (feed (pending st) (concat chunks))"
proof (induction chunks arbitrary: st)
  case Nil
  show ?case by simp
next
  case (Cons c cs)
  show ?case
    using Cons [of "tee_read st c"]
    by (simp add: tee_read_fields feed_append split: prod.splits)
qed

text \<open>The splitter, fed read by read, produces the lines of the whole byte string.\<close>

lemma feed_no_terminator:
  "CHR 0x0A \<notin> set bs \<Longrightarrow> feed p bs = ([], p @ bs)"
  by (induction bs arbitrary: p) auto

lemma feed_terminator:
  "CHR 0x0A \<notin> set a \<Longrightarrow>
     feed p (a @ CHR 0x0A # rest) = ((p @ a) # fst (feed [] rest), snd (feed [] rest))"
  by (induction a arbitrary: p) (auto split: prod.splits)

lemma split_lines_text_lines: "split_lines bs = text_lines bs"
proof (induction bs rule: text_lines.induct)
  case (1 bs)
  show ?case
  proof (cases "bs = []")
    case True
    then show ?thesis by (simp add: split_lines_def flush_def text_lines.simps)
  next
    case False
    let ?a = "takeWhile (\<lambda>c. c \<noteq> CHR 0x0A) bs"
    let ?d = "dropWhile (\<lambda>c. c \<noteq> CHR 0x0A) bs"
    have na: "CHR 0x0A \<notin> set ?a" by (auto dest: set_takeWhileD)
    have t: "text_lines bs = ?a # (case ?d of [] \<Rightarrow> [] | _ # rest \<Rightarrow> text_lines rest)"
      using False by (subst text_lines.simps) simp
    show ?thesis
    proof (cases ?d)
      case Nil
      have a: "?a = bs" using takeWhile_dropWhile_id [of "\<lambda>c. c \<noteq> CHR 0x0A" bs] Nil by simp
      have "feed [] bs = ([], bs)" using na feed_no_terminator [of bs "[]"] a by simp
      then have "split_lines bs = [bs]" using False by (simp add: split_lines_def flush_def)
      moreover have "text_lines bs = [bs]" unfolding t Nil a by simp
      ultimately show ?thesis by simp
    next
      case (Cons x rest)
      then have x: "x = CHR 0x0A" using hd_dropWhile [of "\<lambda>c. c \<noteq> CHR 0x0A" bs] by auto
      have bs: "bs = ?a @ CHR 0x0A # rest"
        using Cons x takeWhile_dropWhile_id [of "\<lambda>c. c \<noteq> CHR 0x0A" bs] by simp
      have "feed [] bs = feed [] (?a @ CHR 0x0A # rest)" using bs by simp
      also have "\<dots> = (?a # fst (feed [] rest), snd (feed [] rest))"
        using feed_terminator [OF na, of "[]" rest] by simp
      finally have f: "feed [] bs = (?a # fst (feed [] rest), snd (feed [] rest))" .
      have ih: "split_lines rest = text_lines rest"
        using 1 [OF False Cons] .
      have "split_lines bs = ?a # split_lines rest"
        using f by (simp add: split_lines_def split: prod.splits)
      moreover have "text_lines bs = ?a # text_lines rest" unfolding t Cons by simp
      ultimately show ?thesis using ih by simp
    qed
  qed
qed

lemma copyOutput_split: "sink (copyOutput chunks) = split_lines (concat chunks)"
  using drain_lines [of drain_init chunks]
  by (simp add: copyOutput_def at_eof_def foldl_snoc split_lines_def drain_init_def split: prod.splits)

lemma copyOutput_sink: "sink (copyOutput chunks) = text_lines (concat chunks)"
  by (simp add: copyOutput_split split_lines_text_lines)

text \<open>
  C7. For every sequence of writes into the buffer that \<open>applyFn\<close> makes with
  \<open>maxBufSize\<close> = 8 KiB, the buffer holds at most 8192 bytes and exactly the last 8192
  bytes of everything written (all of it when that is less); every write is accepted
  in full and returns no error. The same holds for the buffer of the copying
  goroutine, whose writes are the reads from the pipe.
\<close>

theorem bounded_buffer:
  "length (Bytes (foldl (\<lambda>b c. fst (buffer_write b c)) (NewBuffer maxBufSize) ws)) \<le> 8192
   \<and> Bytes (foldl (\<lambda>b c. fst (buffer_write b c)) (NewBuffer maxBufSize) ws)
       = drop (length (concat ws) - 8192) (concat ws)
   \<and> Bytes (buf (foldl tee_read drain_init ws)) = drop (length (concat ws) - 8192) (concat ws)
   \<and> snd (snd (buffer_write b bs)) = None \<and> fst (snd (buffer_write b bs)) = length bs
   \<and> length (Bytes (fst (buffer_write b bs))) \<le> capacity b"
proof -
  have r: "Bytes (foldl (\<lambda>b c. fst (buffer_write b c)) (NewBuffer maxBufSize) ws)
      = last_bytes 8192 (concat ws)"
    using new_buffer_bytes [of maxBufSize ws] by (simp add: maxBufSize_def)
  have t: "buf (foldl tee_read drain_init ws)
      = foldl (\<lambda>b c. fst (buffer_write b c)) (NewBuffer maxBufSize) ws"
    using drain_writes [of drain_init ws] by (simp add: drain_init_def)
  have w: "snd (snd (buffer_write b bs)) = None \<and> fst (snd (buffer_write b bs)) = length bs"
    by (simp add: buffer_write_def Let_def)
  have l: "length (Bytes (fst (buffer_write b bs))) \<le> capacity b"
    by (simp add: buffer_write_def Let_def Bytes_def)
  show ?thesis using r t w l by (simp add: last_bytes_def)
qed

theorem bounded_buffer_witness:
  "Bytes (foldl (\<lambda>b c. fst (buffer_write b c)) (NewBuffer maxBufSize) [''abc'', ''de'']) = ''abcde''
   \<and> Bytes (buf (foldl tee_read drain_init [''abc'', ''de''])) = ''abcde''"
  using bounded_buffer [of "[''abc'', ''de'']"] by simp

text \<open>
  C9. Whatever the reads are into which the output of the command is cut, when the
  copying goroutine has reached the end of the stream the sink has received exactly
  the lines of the whole output, each once and in order, a last line without
  terminator included.
\<close>

theorem lines_delivered:
  "sink (copyOutput chunks) = text_lines (concat chunks)"
proof -
  have "sink (foldl tee_read drain_init chunks) = fst (feed [] (concat chunks))"
    and "pending (foldl tee_read drain_init chunks) = snd (feed [] (concat chunks))"
    using drain_lines [of drain_init chunks] by (simp_all add: drain_init_def)
  then have "sink (copyOutput chunks) = split_lines (concat chunks)"
    by (simp add: copyOutput_def at_eof_def foldl_snoc split_lines_def split: prod.splits)
  then show ?thesis by (simp add: split_lines_text_lines)
qed

theorem lines_delivered_witness:
  "sink (copyOutput [''ab'', ''c'' @ [CHR 0x0A] @ ''d'' @ [CHR 0x0A, CHR 0x0A], ''e''])
     = [''abc'', ''d'', [], ''e'']"
  using lines_delivered [of "[''ab'', ''c'' @ [CHR 0x0A] @ ''d'' @ [CHR 0x0A, CHR 0x0A], ''e'']"]
  by (simp add: text_lines.simps)

text \<open>
  In \<open>applyFn\<close>: when a process was started and the \<open>select\<close> leaves through
  \<open>copyDoneCh\<close>, the sink has received the line that announces the command and then
  the lines of the output.
\<close>

lemma transcript_complete:
  assumes "spawned (effects (applyFn d w))" and "selected w = CopyDone"
  shows "transcript (applyFn d w)
           = Executing (build_cmdargs (interpreter d) (goos w) (command d))
               # map Line (text_lines (concat (proc_output w)))"
proof -
  obtain tmo logs pid where c: "command d \<noteq> []"
    and r: "resolve_timeout (get_timeout d) (os_getenv (max_timeout_env w)) = Inr (tmo, logs)"
    and p: "pipe_result w = None" and lp: "look_path_result w = None"
    and x: "\<not> expired_on_creation (duration_ns tmo)"
    and st: "start_result w = Inr pid"
    using spawned_applyFn [OF assms(1)] by blast
  show ?thesis
    unfolding applyFn_run [OF c r]
    using p lp x st assms(2)
    by (simp add: run_command_def start_and_wait_def select_phase_def drain_at_select_def
        copyOutput_sink Let_def split: option.splits)
qed

end
